theory Spec2Isabelle
  imports Complex_Main "HOL-Library.Multiset"
begin

section \<open>Data model of book-search/app.py\<close>

text \<open>
  The persisted corpus (books.json) is a JSON object from author names to lists of book
  objects. Python dictionaries iterate in insertion order, so the corpus is an association
  list. A book field read with \<^verbatim>\<open>book.get(key, "N/A")\<close> is an optional string
  (\<open>None\<close>: the key is absent); \<^verbatim>\<open>book.get("embedding")\<close> is an optional vector
  (\<open>None\<close>: the key is absent or holds null). Python floats are idealised as reals.
\<close>

datatype error = AttributeError | KeyError | IndexError | TypeError | ValueError | MarkupError

record book =
  book_title :: "string option"
  book_description :: "string option"
  book_publication_date :: "string option"
  book_thumbnail_url :: "string option"
  embedding :: "real list option"

type_synonym corpus = "(string \<times> book list) list"

text \<open>
  The dictionary appended to \<^verbatim>\<open>matches\<close> in \<^verbatim>\<open>search_embeddings\<close>; the key
  \<^verbatim>\<open>relevance_score\<close> is absent (\<open>None\<close>) until \<^verbatim>\<open>rerank_results\<close> sets it.
\<close>

record match =
  author :: string
  title :: string
  description :: string
  publication_date :: string
  thumbnail_url :: string
  similarity :: real
  relevance_score :: "real option"

text \<open>
  What an HTTP call of the program comes back with: a body of the expected shape; a
  \<^verbatim>\<open>requests.exceptions.RequestException\<close> (connection failure, error status, a body
  that is not JSON); or a JSON body of another shape, at which the subscripts that read
  it raise the error carried: \<^verbatim>\<open>KeyError\<close> for a missing key, \<^verbatim>\<open>IndexError\<close> for an
  empty \<^verbatim>\<open>data\<close> list, \<^verbatim>\<open>TypeError\<close> for a value that cannot be subscripted.
\<close>

datatype 'a response = Http_ok 'a | Request_exception | Bad_body error

text \<open>
  The world outside the program: the files on disk, the two providers and the console
  library. The reranking provider answers with a list of items, each an \<^verbatim>\<open>index\<close> and
  a \<^verbatim>\<open>relevance_score\<close>. The console library (rich) reads the message it is asked to
  print as markup and raises \<^verbatim>\<open>MarkupError\<close> for some messages, such as one with a
  closing tag that closes nothing; \<open>markup_error\<close> says for which.
\<close>

record env =
  files :: "string \<rightharpoonup> corpus"
  embed :: "string \<Rightarrow> string \<Rightarrow> real list response"
  rerank :: "string \<Rightarrow> string list \<Rightarrow> int \<Rightarrow> (int \<times> real) list response"
  markup_error :: "string \<Rightarrow> bool"

text \<open>
  The calls that leave the program's own code, in the order they are made: the two
  provider requests and the library's similarity function.
\<close>

datatype event =
  Embed_call string string
  | Similarity_call "real list" "real list"
  | Rerank_call string "string list" int

section \<open>Python list operations\<close>

text \<open>\<^verbatim>\<open>xs[:n]\<close>: a negative bound counts from the end.\<close>

definition py_slice_to :: "int \<Rightarrow> 'a list \<Rightarrow> 'a list" where
  "py_slice_to n xs =
     (if 0 \<le> n then take (nat n) xs else take (length xs - nat (- n)) xs)"

text \<open>
  The position that \<^verbatim>\<open>xs[i]\<close> reads in a list of length \<open>len\<close>: a negative index
  counts from the end, an index out of range raises \<^verbatim>\<open>IndexError\<close>.
\<close>

definition py_position :: "nat \<Rightarrow> int \<Rightarrow> error + nat" where
  "py_position len i =
     (let j = (if i < 0 then int len + i else i)
      in if 0 \<le> j \<and> j < int len then Inr (nat j) else Inl IndexError)"

fun py_positions :: "nat \<Rightarrow> int list \<Rightarrow> error + nat list" where
  "py_positions len [] = Inr []"
| "py_positions len (i # is) =
     (case py_position len i of
        Inl e \<Rightarrow> Inl e
      | Inr p \<Rightarrow> (case py_positions len is of Inl e \<Rightarrow> Inl e | Inr ps \<Rightarrow> Inr (p # ps)))"

text \<open>\<^verbatim>\<open>d.get(key, default)\<close> on an optional field.\<close>

definition get_or :: "string option \<Rightarrow> string \<Rightarrow> string" where
  "get_or v dflt = (case v of None \<Rightarrow> dflt | Some s \<Rightarrow> s)"

text \<open>
  \<^verbatim>\<open>sorted(matches, key=lambda x: x["similarity"], reverse=True)\<close>: Python's sort is
  stable and keeps the original order of equal keys under \<^verbatim>\<open>reverse=True\<close>, which is a
  stable ascending sort on the negated key.
\<close>

definition sorted_reverse :: "match list \<Rightarrow> match list" where
  "sorted_reverse ms = sort_key (\<lambda>m. - similarity m) ms"

section \<open>sklearn's cosine_similarity\<close>

text \<open>
  The library function called at line 121, on two row vectors: both rows are normalised
  by their Euclidean norm, a zero norm being replaced by 1 (some versions of the library
  also replace a norm of less than ten machine epsilons; the model keeps the exact test),
  and the similarity is the dot product of the normalised rows. A row without entries and rows of different dimension
  raise \<^verbatim>\<open>ValueError\<close>. The arithmetic is that of the real numbers: the rounding of
  doubles is not part of the model.
\<close>

definition dot :: "real list \<Rightarrow> real list \<Rightarrow> real" where
  "dot q p = sum_list (map2 (*) q p)"

definition row_norm :: "real list \<Rightarrow> real" where
  "row_norm v = sqrt (dot v v)"

definition handle_zeros :: "real \<Rightarrow> real" where
  "handle_zeros n = (if n = 0 then 1 else n)"

definition normalize_row :: "real list \<Rightarrow> real list" where
  "normalize_row v = map (\<lambda>x. x / handle_zeros (row_norm v)) v"

definition cosine_similarity :: "real list \<Rightarrow> real list \<Rightarrow> error + real" where
  "cosine_similarity q p =
     (if q = [] \<or> p = [] \<or> length q \<noteq> length p then Inl ValueError
      else Inr (dot (normalize_row q) (normalize_row p)))"

section \<open>The program\<close>

text \<open>
  \<^verbatim>\<open>console.print\<close>. A message without an opening bracket holds no markup and is
  printed as it is; for any other message the library decides. The messages of the
  program are built from a fixed text, from text of the caller (the file name, the first
  30 characters of the query) and from the text of a caught exception. The exception's
  text is written by the requests library; it is taken to hold no markup and is left out
  of the message.
\<close>

definition console_print :: "env \<Rightarrow> string \<Rightarrow> error + unit" where
  "console_print e message =
     (if CHR ''['' \<in> set message \<and> markup_error e message then Inl MarkupError else Inr ())"

text \<open>
  \<^verbatim>\<open>load_books\<close>: the parsed file, or \<open>None\<close> when the file does not exist; either
  way a message that names the file is printed before it returns. A file that exists
  holds a corpus: one that is not JSON of this shape is outside the model.
\<close>

definition load_books :: "env \<Rightarrow> string \<Rightarrow> error + corpus option" where
  "load_books e filename =
     (case files e filename of
        Some data \<Rightarrow>
          (case console_print e (''Loaded data from '' @ filename) of
             Inl err \<Rightarrow> Inl err
           | Inr u \<Rightarrow> Inr (Some data))
      | None \<Rightarrow>
          (case console_print e (filename @ '' does not exist. Processing authors...'') of
             Inl err \<Rightarrow> Inl err
           | Inr u \<Rightarrow> Inr None))"

text \<open>
  \<^verbatim>\<open>generate_embedding\<close>: one request to the embedding provider. A
  \<^verbatim>\<open>RequestException\<close> is caught: the handler prints a message that holds the first
  30 characters of the text and returns \<open>None\<close>. No other exception is caught.
\<close>

definition generate_embedding ::
  "env \<Rightarrow> string \<Rightarrow> string \<Rightarrow> (error + real list option) \<times> event list" where
  "generate_embedding e text task_type =
     (case embed e text task_type of
        Http_ok v \<Rightarrow> (Inr (Some v), [Embed_call text task_type])
      | Request_exception \<Rightarrow>
          (case console_print e
                  (''Failed to generate embedding for text: '' @ take 30 text @ ''... - Error: '') of
             Inl err \<Rightarrow> (Inl err, [Embed_call text task_type])
           | Inr u \<Rightarrow> (Inr None, [Embed_call text task_type]))
      | Bad_body err \<Rightarrow> (Inl err, [Embed_call text task_type]))"

text \<open>
  \<^verbatim>\<open>rerank_results\<close>. On success the list comprehension reads
  \<^verbatim>\<open>results[item["index"]]\<close> for every item, and the loop then writes each score into
  the dictionary it is zipped with. The entries of \<^verbatim>\<open>reranked\<close> are references into
  \<^verbatim>\<open>results\<close>, so the writes go to a store indexed by position and the returned list is
  read from the store after the last write. A \<^verbatim>\<open>RequestException\<close> is caught: the
  handler prints a message and returns \<^verbatim>\<open>results[:top_n]\<close>. No other exception is caught.
\<close>

fun attach_scores :: "match list \<Rightarrow> (nat \<times> real) list \<Rightarrow> match list" where
  "attach_scores store [] = store"
| "attach_scores store ((p, s) # rest) =
     attach_scores (store[p := (store ! p)\<lparr>relevance_score := Some s\<rparr>]) rest"

definition rerank_results ::
  "env \<Rightarrow> string \<Rightarrow> match list \<Rightarrow> int \<Rightarrow> (error + match list) \<times> event list" where
  "rerank_results e query results top_n =
     (let documents = map description results;
          trace = [Rerank_call query documents top_n]
      in case rerank e query documents top_n of
           Http_ok ranked_results \<Rightarrow>
             (case py_positions (length results) (map fst ranked_results) of
                Inl err \<Rightarrow> (Inl err, trace)
              | Inr ps \<Rightarrow>
                  (Inr (map (\<lambda>p. attach_scores results (zip ps (map snd ranked_results)) ! p) ps),
                   trace))
         | Request_exception \<Rightarrow>
             (case console_print e ''Failed to rerank results - Error: '' of
                Inl err \<Rightarrow> (Inl err, trace)
              | Inr u \<Rightarrow> (Inr (py_slice_to top_n results), trace))
         | Bad_body err \<Rightarrow> (Inl err, trace))"

text \<open>The body of the inner loop of \<^verbatim>\<open>search_embeddings\<close>: the appended dictionary.\<close>

definition make_match :: "string \<Rightarrow> book \<Rightarrow> real \<Rightarrow> match" where
  "make_match a b s =
     \<lparr>author = a,
      title = get_or (book_title b) ''N/A'',
      description = get_or (book_description b) ''N/A'',
      publication_date = get_or (book_publication_date b) ''N/A'',
      thumbnail_url = get_or (book_thumbnail_url b) ''N/A'',
      similarity = s,
      relevance_score = None\<rparr>"

text \<open>
  \<^verbatim>\<open>if book_embedding:\<close> holds for a list that is neither null nor empty.
\<close>

definition truthy :: "real list option \<Rightarrow> bool" where
  "truthy v = (case v of None \<Rightarrow> False | Some xs \<Rightarrow> xs \<noteq> [])"

text \<open>
  The inner loop over one author's books and the outer loop over the corpus. Each returns
  the matches it appends, in order, and the similarity calls it makes; an exception of
  the similarity function ends both loops.
\<close>

fun score_books ::
  "real list \<Rightarrow> string \<Rightarrow> book list \<Rightarrow> (error + match list) \<times> event list" where
  "score_books q a [] = (Inr [], [])"
| "score_books q a (b # bs) =
     (if truthy (embedding b) then
        (case cosine_similarity q (the (embedding b)) of
           Inl err \<Rightarrow> (Inl err, [Similarity_call q (the (embedding b))])
         | Inr s \<Rightarrow>
             (case score_books q a bs of
                (Inl err, tr) \<Rightarrow> (Inl err, Similarity_call q (the (embedding b)) # tr)
              | (Inr ms, tr) \<Rightarrow>
                  (Inr (make_match a b s # ms), Similarity_call q (the (embedding b)) # tr)))
      else score_books q a bs)"

fun score_corpus :: "real list \<Rightarrow> corpus \<Rightarrow> (error + match list) \<times> event list" where
  "score_corpus q [] = (Inr [], [])"
| "score_corpus q ((a, books) # rest) =
     (case score_books q a books of
        (Inl err, tr) \<Rightarrow> (Inl err, tr)
      | (Inr ms, tr) \<Rightarrow>
          (case score_corpus q rest of
             (Inl err, tr') \<Rightarrow> (Inl err, tr @ tr')
           | (Inr ms', tr') \<Rightarrow> (Inr (ms @ ms'), tr @ tr')))"

text \<open>
  \<^verbatim>\<open>search_embeddings\<close>. The corpus is loaded first and iterated only after the query
  embedding has been obtained; without an embedding a message is printed and the empty
  list returned. Iterating the \<open>None\<close> of a missing file raises \<^verbatim>\<open>AttributeError\<close>.
\<close>

definition search_embeddings ::
  "env \<Rightarrow> string \<Rightarrow> string \<Rightarrow> int \<Rightarrow> int \<Rightarrow> (error + match list) \<times> event list" where
  "search_embeddings e search_text filename top_n initial_matches =
     (case load_books e filename of
        Inl err \<Rightarrow> (Inl err, [])
      | Inr data \<Rightarrow>
          (case generate_embedding e search_text ''retrieval.query'' of
             (Inl err, tr) \<Rightarrow> (Inl err, tr)
           | (Inr None, tr) \<Rightarrow>
               (case console_print e ''Failed to generate embedding for the search query.'' of
                  Inl err \<Rightarrow> (Inl err, tr)
                | Inr u \<Rightarrow> (Inr [], tr))
           | (Inr (Some search_embedding), tr) \<Rightarrow>
               (case data of
                  None \<Rightarrow> (Inl AttributeError, tr)
                | Some d \<Rightarrow>
                    (case score_corpus search_embedding d of
                       (Inl err, tr') \<Rightarrow> (Inl err, tr @ tr')
                     | (Inr matches, tr') \<Rightarrow>
                         (case rerank_results e search_text
                                 (py_slice_to initial_matches (sorted_reverse matches)) top_n of
                            (r, tr'') \<Rightarrow> (r, tr @ tr' @ tr''))))))"

section \<open>Vocabulary of the specification\<close>

text \<open>
  The book records of a corpus, each with its author, in the iteration order of the two
  loops of \<^verbatim>\<open>search_embeddings\<close>.
\<close>

definition corpus_records :: "corpus \<Rightarrow> (string \<times> book) list" where
  "corpus_records d = concat (map (\<lambda>(a, books). map (Pair a) books) d)"

text \<open>A record is scorable when the inner loop takes the branch that scores it.\<close>

definition scorable :: "string \<times> book \<Rightarrow> bool" where
  "scorable r = truthy (embedding (snd r))"

text \<open>The match of a scorable record and the library call that scores it.\<close>

definition scored :: "real list \<Rightarrow> string \<times> book \<Rightarrow> match" where
  "scored q r =
     make_match (fst r) (snd r)
       (dot (normalize_row q) (normalize_row (the (embedding (snd r)))))"

definition similarity_call :: "real list \<Rightarrow> string \<times> book \<Rightarrow> event" where
  "similarity_call q r = Similarity_call q (the (embedding (snd r)))"

text \<open>
  The corpus without the records whose embedding is null.
\<close>

definition drop_null :: "corpus \<Rightarrow> corpus" where
  "drop_null d = map (\<lambda>(a, books). (a, filter (\<lambda>b. embedding b \<noteq> None) books)) d"

text \<open>
  The score of the last item of a reranking answer that names position \<open>p\<close>, the items
  being given as pairs of a position and a score.
\<close>

definition last_score :: "nat \<Rightarrow> (nat \<times> real) list \<Rightarrow> real" where
  "last_score p items = snd (last (filter (\<lambda>item. fst item = p) items))"

section \<open>Sample data\<close>

definition sample_book :: "string \<Rightarrow> real list option \<Rightarrow> book" where
  "sample_book t v =
     \<lparr>book_title = Some t, book_description = Some (''about '' @ t),
      book_publication_date = None, book_thumbnail_url = None, embedding = v\<rparr>"

definition sample_match :: "string \<Rightarrow> string \<Rightarrow> real \<Rightarrow> real option \<Rightarrow> match" where
  "sample_match a t s r =
     \<lparr>author = a, title = t, description = ''about '' @ t, publication_date = ''N/A'',
      thumbnail_url = ''N/A'', similarity = s, relevance_score = r\<rparr>"

definition sample_corpus :: corpus where
  "sample_corpus =
     [(''Author A'', [sample_book ''T1'' (Some [3, 4]), sample_book ''T0'' None]),
      (''Author B'', [sample_book ''T2'' (Some [4, 3])])]"

definition tie_corpus :: corpus where
  "tie_corpus =
     [(''Author A'', [sample_book ''T1'' (Some [3, 4])]),
      (''Author B'', [sample_book ''T2'' (Some [4, 3]), sample_book ''T3'' (Some [3, 4])])]"

definition zero_corpus :: corpus where
  "zero_corpus = [(''Author Z'', [sample_book ''Z'' (Some [0, 0])])]"

text \<open>
  A sample world with one file, fixed answers of the two providers, and a console that
  refuses every message with an opening bracket.
\<close>

definition sample_env ::
  "corpus option \<Rightarrow> real list response \<Rightarrow> (int \<times> real) list response \<Rightarrow> env" where
  "sample_env c er rr =
     \<lparr>files = (\<lambda>f. if f = ''books.json'' then c else None),
      embed = (\<lambda>text task_type. er),
      rerank = (\<lambda>query documents top_n. rr),
      markup_error = (\<lambda>message. True)\<rparr>"

section \<open>The similarity function\<close>

lemma dot_Nil [simp]: "dot [] p = 0" "dot q [] = 0"
  by (simp_all add: dot_def)

lemma dot_Cons [simp]: "dot (x # q) (y # p) = x * y + dot q p"
  by (simp add: dot_def)

lemma dot_commute: "dot q p = dot p q"
proof (induction q arbitrary: p)
  case Nil
  show ?case by simp
next
  case (Cons x q)
  show ?case by (cases p) (simp_all add: Cons.IH mult.commute)
qed

lemma dot_self_nonneg: "0 \<le> dot v v"
  by (induction v) simp_all

lemma dot_scale: "dot (map (\<lambda>x. x / c) q) (map (\<lambda>x. x / d) p) = dot q p / (c * d)"
proof (induction q arbitrary: p)
  case Nil
  show ?case by simp
next
  case (Cons x q)
  show ?case by (cases p) (simp_all add: Cons.IH add_divide_distrib)
qed

lemma cosine_similarity_empty: "cosine_similarity [] p = Inl ValueError"
  by (simp add: cosine_similarity_def)

lemma row_norm_zero_iff: "row_norm v = 0 \<longleftrightarrow> dot v v = 0"
  by (simp add: row_norm_def)

lemma dot_normalize_self: "dot (normalize_row v) (normalize_row v) = (if row_norm v = 0 then 0 else 1)"
proof (cases "row_norm v = 0")
  case True
  then show ?thesis
    by (simp add: normalize_row_def handle_zeros_def dot_scale row_norm_zero_iff)
next
  case False
  then have "dot v v \<noteq> 0" by (simp add: row_norm_zero_iff)
  moreover have "row_norm v * row_norm v = dot v v"
    by (simp add: row_norm_def dot_self_nonneg)
  ultimately show ?thesis using False
    by (simp add: normalize_row_def handle_zeros_def dot_scale)
qed



lemma sorted_reverse_desc: "sorted_wrt (\<lambda>a b. similarity b \<le> similarity a) (sorted_reverse ms)"
proof -
  have "sorted (map (\<lambda>m. - similarity m) (sorted_reverse ms))"
    by (simp add: sorted_reverse_def)
  then show ?thesis by (simp add: sorted_map)
qed

lemma sorted_reverse_mset: "mset (sorted_reverse ms) = mset ms"
  by (simp add: sorted_reverse_def)

lemma sorted_reverse_stable:
  "filter (\<lambda>m. similarity m = k) (sorted_reverse ms) = filter (\<lambda>m. similarity m = k) ms"
  using sort_key_stable [of "\<lambda>m. - similarity m" "- k" ms]
  by (simp add: sorted_reverse_def)

section \<open>Scoring and reranking\<close>

lemma score_books_result:
  "score_books q a bs = (Inr ms, tr) \<Longrightarrow>
     ms = map (scored q) (filter scorable (map (Pair a) bs)) \<and>
     tr = map (similarity_call q) (filter scorable (map (Pair a) bs)) \<and>
     (\<forall>r \<in> set (map (Pair a) bs). scorable r \<longrightarrow> length (the (embedding (snd r))) = length q)"
proof (induction bs arbitrary: ms tr)
  case Nil
  then show ?case by simp
next
  case (Cons b bs)
  show ?case
  proof (cases "truthy (embedding b)")
    case False
    with Cons show ?thesis by (simp add: scorable_def)
  next
    case True
    with Cons.prems obtain s ms' tr' where
      s: "cosine_similarity q (the (embedding b)) = Inr s" and
      rest: "score_books q a bs = (Inr ms', tr')" and
      ms: "ms = make_match a b s # ms'" and
      tr: "tr = Similarity_call q (the (embedding b)) # tr'"
      by (auto split: sum.splits prod.splits)
    from s have "length (the (embedding b)) = length q"
      and "s = dot (normalize_row q) (normalize_row (the (embedding b)))"
      by (auto simp: cosine_similarity_def split: if_splits)
    with Cons.IH [OF rest] True ms tr show ?thesis
      by (simp add: scorable_def scored_def similarity_call_def)
  qed
qed

lemma corpus_records_Nil [simp]: "corpus_records [] = []"
  by (simp add: corpus_records_def)

lemma corpus_records_Cons [simp]:
  "corpus_records ((a, bs) # d) = map (Pair a) bs @ corpus_records d"
  by (simp add: corpus_records_def)

lemma score_corpus_result:
  "score_corpus q d = (Inr ms, tr) \<Longrightarrow>
     ms = map (scored q) (filter scorable (corpus_records d)) \<and>
     tr = map (similarity_call q) (filter scorable (corpus_records d)) \<and>
     (\<forall>r \<in> set (corpus_records d). scorable r \<longrightarrow> length (the (embedding (snd r))) = length q)"
proof (induction d arbitrary: ms tr)
  case Nil
  then show ?case by simp
next
  case (Cons ab d)
  obtain a bs where ab: "ab = (a, bs)" by (cases ab)
  with Cons.prems obtain ms1 tr1 ms2 tr2 where
    one: "score_books q a bs = (Inr ms1, tr1)" and
    two: "score_corpus q d = (Inr ms2, tr2)" and
    ms: "ms = ms1 @ ms2" and tr: "tr = tr1 @ tr2"
    by (auto split: sum.splits prod.splits)
  from score_books_result [OF one] Cons.IH [OF two] ab ms tr show ?case
    by (simp add: ball_Un)
qed

lemma score_books_ok:
  "\<forall>r \<in> set (map (Pair a) bs). scorable r \<longrightarrow> length (the (embedding (snd r))) = length q \<Longrightarrow>
     \<exists>ms tr. score_books q a bs = (Inr ms, tr)"
proof (induction bs)
  case Nil
  show ?case by simp
next
  case (Cons b bs)
  then obtain ms tr where "score_books q a bs = (Inr ms, tr)" by auto
  with Cons.prems show ?case
    by (auto simp: scorable_def cosine_similarity_def truthy_def split: option.splits)
qed

lemma score_corpus_ok:
  "\<forall>r \<in> set (corpus_records d). scorable r \<longrightarrow> length (the (embedding (snd r))) = length q \<Longrightarrow>
     \<exists>ms tr. score_corpus q d = (Inr ms, tr)"
proof (induction d)
  case Nil
  show ?case by simp
next
  case (Cons ab d)
  obtain a bs where ab: "ab = (a, bs)" by (cases ab)
  from Cons.prems ab
  have "\<forall>r \<in> set (map (Pair a) bs). scorable r \<longrightarrow> length (the (embedding (snd r))) = length q"
    and "\<forall>r \<in> set (corpus_records d). scorable r \<longrightarrow> length (the (embedding (snd r))) = length q"
    by (simp_all add: ball_Un)
  with score_books_ok [of a bs q] Cons.IH ab show ?case by auto
qed

lemma console_print_plain: "CHR ''['' \<notin> set message \<Longrightarrow> console_print e message = Inr ()"
  by (simp add: console_print_def)

lemma console_print_rerank [simp]:
  "console_print e ''Failed to rerank results - Error: '' = Inr ()"
  by (simp add: console_print_def)

lemma console_print_query [simp]:
  "console_print e ''Failed to generate embedding for the search query.'' = Inr ()"
  by (simp add: console_print_def)

lemma console_print_files [simp]:
  "console_print (e\<lparr>files := f\<rparr>) message = console_print e message"
  by (simp add: console_print_def)

lemma attach_scores_length [simp]: "length (attach_scores st pss) = length st"
  by (induction st pss rule: attach_scores.induct) simp_all

lemma attach_scores_other:
  "p \<notin> fst ` set pss \<Longrightarrow> attach_scores st pss ! p = st ! p"
  by (induction st pss rule: attach_scores.induct) auto

lemma attach_scores_distinct:
  "distinct (map fst pss) \<Longrightarrow> (p, s) \<in> set pss \<Longrightarrow> p < length st \<Longrightarrow>
     attach_scores st pss ! p = (st ! p)\<lparr>relevance_score := Some s\<rparr>"
proof (induction st pss rule: attach_scores.induct)
  case (1 st)
  then show ?case by simp
next
  case (2 st p' s' rest)
  show ?case
  proof (cases "(p, s) = (p', s')")
    case True
    with "2.prems" show ?thesis by (simp add: attach_scores_other)
  next
    case False
    with "2.prems" have mem: "(p, s) \<in> set rest" and ne: "p \<noteq> p'"
      by (auto simp: image_iff)
    with "2.IH" [OF _ mem] "2.prems" show ?thesis by simp
  qed
qed

lemma attach_scores_any:
  "i < length st \<Longrightarrow> \<exists>r. attach_scores st pss ! i = (st ! i)\<lparr>relevance_score := r\<rparr>"
proof (induction st pss rule: attach_scores.induct)
  case (1 st)
  have "st ! i = (st ! i)\<lparr>relevance_score := relevance_score (st ! i)\<rparr>" by simp
  then show ?case by (metis attach_scores.simps(1))
next
  case (2 st p s rest)
  then obtain r where
    "attach_scores (st[p := (st ! p)\<lparr>relevance_score := Some s\<rparr>]) rest ! i =
       ((st[p := (st ! p)\<lparr>relevance_score := Some s\<rparr>]) ! i)\<lparr>relevance_score := r\<rparr>"
    by auto
  with "2.prems" show ?case by (cases "i = p") auto
qed

lemma py_positions_valid:
  "\<forall>i \<in> set is. 0 \<le> i \<and> i < int len \<Longrightarrow> py_positions len is = Inr (map nat is)"
  by (induction "is") (simp_all add: py_position_def)

lemma py_positions_range:
  "py_positions len is = Inr ps \<Longrightarrow> length ps = length is \<and> (\<forall>p \<in> set ps. p < len)"
proof (induction "is" arbitrary: ps)
  case Nil
  then show ?case by simp
next
  case (Cons i "is")
  then show ?case
    by (auto simp: py_position_def Let_def split: sum.splits if_splits)
qed

lemma rerank_results_fallback:
  "rerank e query (map description results) top_n = Request_exception \<Longrightarrow>
     rerank_results e query results top_n =
       (Inr (py_slice_to top_n results), [Rerank_call query (map description results) top_n])"
  by (simp add: rerank_results_def)

lemma rerank_results_success:
  assumes ok: "rerank e query (map description results) top_n = Http_ok ranked"
    and valid: "\<forall>i \<in> set (map fst ranked). 0 \<le> i \<and> i < int (length results)"
    and dist: "distinct (map fst ranked)"
  shows "rerank_results e query results top_n =
           (Inr (map (\<lambda>(i, s). (results ! nat i)\<lparr>relevance_score := Some s\<rparr>) ranked),
            [Rerank_call query (map description results) top_n])"
proof -
  let ?ps = "map nat (map fst ranked)"
  let ?pss = "zip ?ps (map snd ranked)"
  have pss: "?pss = map (\<lambda>(i, s). (nat i, s)) ranked"
    by (induction ranked) auto
  have "inj_on nat (set (map fst ranked))"
  proof (rule inj_onI)
    fix x y assume "x \<in> set (map fst ranked)" "y \<in> set (map fst ranked)" "nat x = nat y"
    with valid have "0 \<le> x" "0 \<le> y" "nat x = nat y" by auto
    then show "x = y" by simp
  qed
  with dist have "distinct ?ps"
    by (simp only: distinct_map)
  then have dps: "distinct (map fst ?pss)"
    by simp
  have "\<And>i s. (i, s) \<in> set ranked \<Longrightarrow>
          attach_scores results ?pss ! nat i = (results ! nat i)\<lparr>relevance_score := Some s\<rparr>"
  proof -
    fix i s assume mem: "(i, s) \<in> set ranked"
    then have "(nat i, s) \<in> set ?pss" unfolding pss by force
    moreover from mem valid have "nat i < length results" by force
    ultimately show "attach_scores results ?pss ! nat i = (results ! nat i)\<lparr>relevance_score := Some s\<rparr>"
      using attach_scores_distinct [OF dps] by blast
  qed
  then have "map (\<lambda>p. attach_scores results ?pss ! p) ?ps =
               map (\<lambda>(i, s). (results ! nat i)\<lparr>relevance_score := Some s\<rparr>) ranked"
    by (auto simp: comp_def)
  with ok py_positions_valid [OF valid] show ?thesis
    by (simp add: rerank_results_def)
qed

lemma rerank_results_elements:
  assumes "rerank_results e query results top_n = (Inr rs, tr)"
  shows "\<forall>r \<in> set rs. \<exists>m \<in> set results. r\<lparr>relevance_score := None\<rparr> = m\<lparr>relevance_score := None\<rparr>"
proof (cases "rerank e query (map description results) top_n")
  case (Http_ok ranked)
  with assms obtain ps where
    ps: "py_positions (length results) (map fst ranked) = Inr ps" and
    rs: "rs = map (\<lambda>p. attach_scores results (zip ps (map snd ranked)) ! p) ps"
    by (auto simp: rerank_results_def Let_def split: sum.splits)
  show ?thesis
  proof
    fix r assume "r \<in> set rs"
    with rs obtain p where p: "p \<in> set ps" and r: "r = attach_scores results (zip ps (map snd ranked)) ! p"
      by auto
    from py_positions_range [OF ps] p have lt: "p < length results" by simp
    from attach_scores_any [OF lt, of "zip ps (map snd ranked)"] r
    obtain x where "r = (results ! p)\<lparr>relevance_score := x\<rparr>" by auto
    then have "r\<lparr>relevance_score := None\<rparr> = (results ! p)\<lparr>relevance_score := None\<rparr>" by simp
    with lt show "\<exists>m \<in> set results. r\<lparr>relevance_score := None\<rparr> = m\<lparr>relevance_score := None\<rparr>"
      using nth_mem by blast
  qed
next
  case Request_exception
  with assms have "rs = py_slice_to top_n results" by (simp add: rerank_results_def)
  then have "set rs \<subseteq> set results"
    by (auto simp: py_slice_to_def dest: in_set_takeD split: if_splits)
  then show ?thesis by blast
next
  case (Bad_body err)
  with assms show ?thesis by (simp add: rerank_results_def)
qed

lemma rerank_results_trace:
  "snd (rerank_results e query results top_n) = [Rerank_call query (map description results) top_n]"
  by (simp add: rerank_results_def Let_def split: response.splits sum.splits)

lemma rerank_results_length:
  assumes "rerank_results e query results top_n = (Inr rs, tr)"
  shows "case rerank e query (map description results) top_n of
           Http_ok ranked \<Rightarrow> length rs = length ranked
         | _ \<Rightarrow> rs = py_slice_to top_n results"
  using assms
  by (auto simp: rerank_results_def Let_def dest: py_positions_range split: response.splits sum.splits)

section \<open>The pipeline\<close>

lemma sqrt_25: "sqrt 25 = 5"
  by (rule real_sqrt_unique) simp_all

lemmas sample_defs =
  search_embeddings_def generate_embedding_def sample_env_def load_books_def
  sample_corpus_def tie_corpus_def zero_corpus_def sample_book_def sample_match_def truthy_def
  cosine_similarity_def normalize_row_def row_norm_def handle_zeros_def make_match_def
  get_or_def sorted_reverse_def py_slice_to_def rerank_results_def py_position_def
  corpus_records_def scorable_def scored_def console_print_def last_score_def sqrt_25

lemma search_embeddings_scored:
  assumes "load_books e filename = Inr (Some d)"
    and "embed e search_text ''retrieval.query'' = Http_ok q"
    and "score_corpus q d = (Inr ms, tr)"
  shows "search_embeddings e search_text filename top_n initial_matches =
           (fst (rerank_results e search_text
                   (py_slice_to initial_matches (sorted_reverse ms)) top_n),
            Embed_call search_text ''retrieval.query'' # tr @
              [Rerank_call search_text
                 (map description (py_slice_to initial_matches (sorted_reverse ms))) top_n])"
  using assms rerank_results_trace [of e search_text "py_slice_to initial_matches (sorted_reverse ms)" top_n]
  by (cases "rerank_results e search_text (py_slice_to initial_matches (sorted_reverse ms)) top_n")
    (simp add: search_embeddings_def generate_embedding_def)

lemma scored_fields:
  "relevance_score (scored q r) = None"
  "author (scored q r) = fst r"
  "title (scored q r) = get_or (book_title (snd r)) ''N/A''"
  "description (scored q r) = get_or (book_description (snd r)) ''N/A''"
  "publication_date (scored q r) = get_or (book_publication_date (snd r)) ''N/A''"
  "thumbnail_url (scored q r) = get_or (book_thumbnail_url (snd r)) ''N/A''"
  by (simp_all add: scored_def make_match_def)

lemma set_sorted_reverse [simp]: "set (sorted_reverse ms) = set ms"
  by (simp add: sorted_reverse_def)

lemma length_sorted_reverse [simp]: "length (sorted_reverse ms) = length ms"
  by (simp add: sorted_reverse_def)

lemma set_py_slice_to: "set (py_slice_to n xs) \<subseteq> set xs"
  by (auto simp: py_slice_to_def dest: in_set_takeD)

lemma length_py_slice_to: "length (py_slice_to n xs) \<le> length xs"
  by (simp add: py_slice_to_def)

lemma score_corpus_unscorable:
  assumes "\<forall>r \<in> set (corpus_records d). \<not> scorable r"
  shows "score_corpus q d = (Inr [], [])"
proof -
  from assms score_corpus_ok [of d q] obtain ms tr where sc: "score_corpus q d = (Inr ms, tr)"
    by blast
  from assms have "filter scorable (corpus_records d) = []"
    by (simp add: filter_empty_conv)
  with score_corpus_result [OF sc] sc show ?thesis by simp
qed

lemma score_books_drop_null:
  "score_books q a (filter (\<lambda>b. embedding b \<noteq> None) bs) = score_books q a bs"
proof (induction bs)
  case Nil
  show ?case by simp
next
  case (Cons b bs)
  show ?case
  proof (cases "embedding b")
    case None
    with Cons.IH show ?thesis by (simp add: truthy_def)
  next
    case (Some v)
    then have "filter (\<lambda>b. embedding b \<noteq> None) (b # bs) =
                 b # filter (\<lambda>b. embedding b \<noteq> None) bs"
      by simp
    then show ?thesis by (simp only: score_books.simps Cons.IH)
  qed
qed

lemma score_corpus_drop_null: "score_corpus q (drop_null d) = score_corpus q d"
proof (induction d)
  case Nil
  show ?case by (simp add: drop_null_def)
next
  case (Cons ab d)
  obtain a bs where ab: "ab = (a, bs)" by (cases ab)
  have "drop_null (ab # d) = (a, filter (\<lambda>b. embedding b \<noteq> None) bs) # drop_null d"
    by (simp add: drop_null_def ab)
  then show ?case
    by (simp only: score_corpus.simps score_books_drop_null Cons.IH ab)
qed

lemma scorable_not_null: "scorable r \<Longrightarrow> embedding (snd r) \<noteq> None"
  by (cases "embedding (snd r)") (simp_all add: scorable_def truthy_def)

lemma rerank_results_files [simp]:
  "rerank_results (e\<lparr>files := f\<rparr>) query results top_n = rerank_results e query results top_n"
  by (simp add: rerank_results_def Let_def split: response.splits)

lemma attach_scores_last:
  "p \<in> fst ` set pss \<Longrightarrow> p < length st \<Longrightarrow>
     attach_scores st pss ! p = (st ! p)\<lparr>relevance_score := Some (last_score p pss)\<rparr>"
proof (induction st pss rule: attach_scores.induct)
  case (1 st)
  then show ?case by simp
next
  case (2 st p' s' rest)
  let ?st = "st[p' := (st ! p')\<lparr>relevance_score := Some s'\<rparr>]"
  show ?case
  proof (cases "p \<in> fst ` set rest")
    case True
    then have ne: "filter (\<lambda>item. fst item = p) rest \<noteq> []"
      by (auto simp: filter_empty_conv)
    from "2.prems" have "p < length ?st" by simp
    with "2.IH" [OF True] have
      "attach_scores ?st rest ! p = (?st ! p)\<lparr>relevance_score := Some (last_score p rest)\<rparr>"
      by simp
    moreover have "(?st ! p)\<lparr>relevance_score := Some (last_score p rest)\<rparr> =
                   (st ! p)\<lparr>relevance_score := Some (last_score p rest)\<rparr>"
      using "2.prems" by (cases "p = p'") simp_all
    moreover have "last_score p ((p', s') # rest) = last_score p rest"
      using ne by (simp add: last_score_def)
    ultimately show ?thesis by simp
  next
    case False
    with "2.prems" have eq: "p = p'" by auto
    with False have "filter (\<lambda>item. fst item = p) rest = []"
      by (auto simp: filter_empty_conv)
    with eq have "last_score p ((p', s') # rest) = s'"
      by (simp add: last_score_def)
    with False eq "2.prems" show ?thesis
      by (simp add: attach_scores_other)
  qed
qed

lemma rerank_results_answer:
  assumes ok: "rerank e query (map description results) top_n = Http_ok ranked"
  shows "rerank_results e query results top_n =
           (case py_positions (length results) (map fst ranked) of
              Inl err \<Rightarrow> Inl err
            | Inr ps \<Rightarrow>
                Inr (map (\<lambda>p. (results ! p)
                            \<lparr>relevance_score := Some (last_score p (zip ps (map snd ranked)))\<rparr>) ps),
            [Rerank_call query (map description results) top_n])"
proof (cases "py_positions (length results) (map fst ranked)")
  case (Inl err)
  with ok show ?thesis by (simp add: rerank_results_def)
next
  case (Inr ps)
  from py_positions_range [OF Inr] have len: "length ps = length ranked"
    and lt: "\<forall>p \<in> set ps. p < length results"
    by simp_all
  from len have "fst ` set (zip ps (map snd ranked)) = set ps"
    by (metis length_map map_fst_zip set_map)
  with lt have "map (\<lambda>p. attach_scores results (zip ps (map snd ranked)) ! p) ps =
                map (\<lambda>p. (results ! p)
                        \<lparr>relevance_score := Some (last_score p (zip ps (map snd ranked)))\<rparr>) ps"
    by (intro map_cong refl attach_scores_last) auto
  with ok Inr show ?thesis by (simp add: rerank_results_def)
qed

lemma load_books_Some_iff:
  "load_books e filename = Inr (Some d) \<longleftrightarrow>
     files e filename = Some d \<and> console_print e (''Loaded data from '' @ filename) = Inr ()"
  by (auto simp: load_books_def split: option.splits sum.splits)

lemma load_books_None_iff:
  "load_books e filename = Inr None \<longleftrightarrow>
     files e filename = None \<and>
     console_print e (filename @ '' does not exist. Processing authors...'') = Inr ()"
  by (auto simp: load_books_def split: option.splits sum.splits)

lemma generate_embedding_files [simp]:
  "generate_embedding (e\<lparr>files := f\<rparr>) text task_type = generate_embedding e text task_type"
  by (simp add: generate_embedding_def split: response.splits)

section \<open>Claims\<close>

text \<open>
  Claim C1, as amended. When the corpus file exists, the query embedding is obtained,
  scoring raises no exception and the reranking request is answered, the result is read
  from the candidate list in the order of the answer's index list and has as many entries
  as the answer has items: \<^verbatim>\<open>rerank_results\<close> does not cut the answer to \<open>top_n\<close>. Each entry
  carries the relevance score of the last item of the answer that names the same
  candidate; when the indices are in range and distinct, that is the score paired with
  it. An index out of range raises \<^verbatim>\<open>IndexError\<close>. In the sample run the provider
  reverses the two candidates, and the result is in the provider's order, not in
  similarity order.
\<close>

theorem rerank_success_order:
  assumes loaded: "load_books e filename = Inr (Some d)"
    and emb: "embed e search_text ''retrieval.query'' = Http_ok q"
    and sc: "fst (score_corpus q d) = Inr ms"
    and cands: "cands = py_slice_to initial_matches (sorted_reverse ms)"
    and ok: "rerank e search_text (map description cands) top_n = Http_ok ranked"
  shows "fst (search_embeddings e search_text filename top_n initial_matches) =
           (case py_positions (length cands) (map fst ranked) of
              Inl err \<Rightarrow> Inl err
            | Inr ps \<Rightarrow>
                Inr (map (\<lambda>p. (cands ! p)
                            \<lparr>relevance_score := Some (last_score p (zip ps (map snd ranked)))\<rparr>) ps)) \<and>
         ((\<forall>i \<in> set (map fst ranked). 0 \<le> i \<and> i < int (length cands)) \<and>
          distinct (map fst ranked) \<longrightarrow>
            fst (search_embeddings e search_text filename top_n initial_matches) =
              Inr (map (\<lambda>(i, s). (cands ! nat i)\<lparr>relevance_score := Some s\<rparr>) ranked))"
proof -
  from sc obtain tr where sc': "score_corpus q d = (Inr ms, tr)"
    by (cases "score_corpus q d") simp
  note run = search_embeddings_scored [OF loaded emb sc', of top_n initial_matches]
  from run rerank_results_answer [OF ok] cands
  have one: "fst (search_embeddings e search_text filename top_n initial_matches) =
           (case py_positions (length cands) (map fst ranked) of
              Inl err \<Rightarrow> Inl err
            | Inr ps \<Rightarrow>
                Inr (map (\<lambda>p. (cands ! p)
                            \<lparr>relevance_score := Some (last_score p (zip ps (map snd ranked)))\<rparr>) ps))"
    by simp
  have two: "fst (search_embeddings e search_text filename top_n initial_matches) =
              Inr (map (\<lambda>(i, s). (cands ! nat i)\<lparr>relevance_score := Some s\<rparr>) ranked)"
    if "(\<forall>i \<in> set (map fst ranked). 0 \<le> i \<and> i < int (length cands)) \<and> distinct (map fst ranked)"
    using that run rerank_results_success [OF ok] cands by simp
  from one two show ?thesis by blast
qed

theorem rerank_success_order_witness:
  "load_books (sample_env (Some tie_corpus) (Http_ok [1, 0]) (Http_ok [(1, 99 / 100), (0, 1 / 2)]))
     ''books.json'' = Inr (Some tie_corpus) \<and>
   embed (sample_env (Some tie_corpus) (Http_ok [1, 0]) (Http_ok [(1, 99 / 100), (0, 1 / 2)]))
     ''cats'' ''retrieval.query'' = Http_ok [1, 0] \<and>
   fst (score_corpus [1, 0] tie_corpus) =
     Inr [sample_match ''Author A'' ''T1'' (3 / 5) None,
          sample_match ''Author B'' ''T2'' (4 / 5) None,
          sample_match ''Author B'' ''T3'' (3 / 5) None] \<and>
   py_slice_to 2 (sorted_reverse
       [sample_match ''Author A'' ''T1'' (3 / 5) None,
        sample_match ''Author B'' ''T2'' (4 / 5) None,
        sample_match ''Author B'' ''T3'' (3 / 5) None]) =
     [sample_match ''Author B'' ''T2'' (4 / 5) None, sample_match ''Author A'' ''T1'' (3 / 5) None] \<and>
   rerank (sample_env (Some tie_corpus) (Http_ok [1, 0]) (Http_ok [(1, 99 / 100), (0, 1 / 2)]))
     ''cats'' [''about T2'', ''about T1''] 5 = Http_ok [(1, 99 / 100), (0, 1 / 2)] \<and>
   py_positions 2 [1, 0] = Inr [1, 0] \<and>
   distinct [1, 0 :: int] \<and>
   fst (search_embeddings
          (sample_env (Some tie_corpus) (Http_ok [1, 0]) (Http_ok [(1, 99 / 100), (0, 1 / 2)]))
          ''cats'' ''books.json'' 5 2) =
     Inr [sample_match ''Author A'' ''T1'' (3 / 5) (Some (99 / 100)),
          sample_match ''Author B'' ''T2'' (4 / 5) (Some (1 / 2))]"
proof -
  let ?e = "sample_env (Some tie_corpus) (Http_ok [1, 0]) (Http_ok [(1, 99 / 100), (0, 1 / 2)])"
  let ?ms = "[sample_match ''Author A'' ''T1'' (3 / 5) None,
              sample_match ''Author B'' ''T2'' (4 / 5) None,
              sample_match ''Author B'' ''T3'' (3 / 5) None]"
  let ?cands = "[sample_match ''Author B'' ''T2'' (4 / 5) None, sample_match ''Author A'' ''T1'' (3 / 5) None]"
  have loaded: "load_books ?e ''books.json'' = Inr (Some tie_corpus)"
    by (simp add: load_books_def sample_env_def console_print_def)
  have emb: "embed ?e ''cats'' ''retrieval.query'' = Http_ok [1, 0]"
    by (simp add: sample_env_def)
  have sc: "fst (score_corpus [1, 0] tie_corpus) = Inr ?ms"
    by (simp add: sample_defs)
  have cands: "?cands = py_slice_to 2 (sorted_reverse ?ms)"
    by (simp add: sample_defs)
  have ok: "rerank ?e ''cats'' (map description ?cands) 5 = Http_ok [(1, 99 / 100), (0, 1 / 2)]"
    by (simp add: sample_env_def)
  have ok': "rerank ?e ''cats'' [''about T2'', ''about T1''] 5 = Http_ok [(1, 99 / 100), (0, 1 / 2)]"
    by (simp add: sample_env_def)
  have pos: "py_positions 2 [1, 0] = Inr [1, 0]"
    by (simp add: py_position_def)
  have dist: "distinct [1, 0 :: int]"
    by simp
  have valid: "(\<forall>i \<in> set (map fst [(1 :: int, 99 / 100 :: real), (0, 1 / 2)]).
                  0 \<le> i \<and> i < int (length ?cands)) \<and>
               distinct (map fst [(1 :: int, 99 / 100 :: real), (0, 1 / 2)])"
    by simp
  note inst = rerank_success_order [OF loaded emb sc cands ok, THEN conjunct2, rule_format, OF valid]
  from inst have result: "fst (search_embeddings ?e ''cats'' ''books.json'' 5 2) =
      Inr [sample_match ''Author A'' ''T1'' (3 / 5) (Some (99 / 100)),
           sample_match ''Author B'' ''T2'' (4 / 5) (Some (1 / 2))]"
    by (simp add: sample_match_def)
  show ?thesis
    by (intro conjI) (rule loaded emb sc cands [symmetric] ok' pos dist result)+
qed

text \<open>
  Claim C1 as stated does not hold for every answer of the provider: asked for one result,
  an answer that names the first candidate twice gives two entries, and the first entry
  carries the score of the second item.
\<close>

theorem rerank_duplicate_index_overwrites_score:
  "rerank (sample_env (Some sample_corpus) (Http_ok [1, 0]) (Http_ok [(0, 9 / 10), (0, 1 / 10)]))
     ''cats'' [''about T2'', ''about T1''] 1 = Http_ok [(0, 9 / 10), (0, 1 / 10)] \<and>
   search_embeddings
       (sample_env (Some sample_corpus) (Http_ok [1, 0]) (Http_ok [(0, 9 / 10), (0, 1 / 10)]))
       ''cats'' ''books.json'' 1 10 =
     (Inr [sample_match ''Author B'' ''T2'' (4 / 5) (Some (1 / 10)),
           sample_match ''Author B'' ''T2'' (4 / 5) (Some (1 / 10))],
      [Embed_call ''cats'' ''retrieval.query'', Similarity_call [1, 0] [3, 4],
       Similarity_call [1, 0] [4, 3], Rerank_call ''cats'' [''about T2'', ''about T1''] 1])"
  by (simp add: sample_defs)

text \<open>
  Claim C2, as amended. When the corpus file exists, the query embedding is obtained,
  scoring raises no exception and the reranking request fails with a
  \<^verbatim>\<open>RequestException\<close>, the result is the slice \<^verbatim>\<open>[:top_n]\<close> of the similarity-sorted
  candidate list, none of its entries carries a relevance score, for a non-negative
  \<open>top_n\<close> it is the first \<open>top_n\<close> candidates, and it is non-empty when \<open>top_n\<close> and
  \<open>initial_matches\<close> are at least 1 and the corpus has a scorable record.
\<close>

theorem rerank_failure_fallback:
  assumes loaded: "load_books e filename = Inr (Some d)"
    and emb: "embed e search_text ''retrieval.query'' = Http_ok q"
    and sc: "fst (score_corpus q d) = Inr ms"
    and cands: "cands = py_slice_to initial_matches (sorted_reverse ms)"
    and failed: "rerank e search_text (map description cands) top_n = Request_exception"
  shows "fst (search_embeddings e search_text filename top_n initial_matches) =
           Inr (py_slice_to top_n cands) \<and>
         (\<forall>r \<in> set (py_slice_to top_n cands). relevance_score r = None) \<and>
         (0 \<le> top_n \<longrightarrow> py_slice_to top_n cands = take (nat top_n) cands) \<and>
         (0 < top_n \<and> 0 < initial_matches \<and> (\<exists>r \<in> set (corpus_records d). scorable r) \<longrightarrow>
            py_slice_to top_n cands \<noteq> [])"
proof -
  from sc obtain tr where sc': "score_corpus q d = (Inr ms, tr)"
    by (cases "score_corpus q d") simp
  note res = score_corpus_result [OF sc']
  have one: "fst (search_embeddings e search_text filename top_n initial_matches) =
               Inr (py_slice_to top_n cands)"
    using search_embeddings_scored [OF loaded emb sc'] rerank_results_fallback [OF failed] cands
    by simp
  have "set (py_slice_to top_n cands) \<subseteq> set ms"
    using set_py_slice_to [of top_n cands] set_py_slice_to [of initial_matches "sorted_reverse ms"]
      cands by auto
  with res have two: "\<forall>r \<in> set (py_slice_to top_n cands). relevance_score r = None"
    by (auto simp: scored_fields)
  have three: "0 \<le> top_n \<longrightarrow> py_slice_to top_n cands = take (nat top_n) cands"
    by (simp add: py_slice_to_def)
  have four: "py_slice_to top_n cands \<noteq> []"
    if "0 < top_n \<and> 0 < initial_matches \<and> (\<exists>r \<in> set (corpus_records d). scorable r)"
  proof -
    from that res have "ms \<noteq> []" by (auto simp: filter_empty_conv)
    then have "sorted_reverse ms \<noteq> []"
      using length_sorted_reverse [of ms] by (metis length_0_conv)
    with that cands have "cands \<noteq> []" by (simp add: py_slice_to_def)
    with that show ?thesis by (simp add: py_slice_to_def)
  qed
  from one two three four show ?thesis by blast
qed

theorem rerank_failure_fallback_witness:
  "load_books (sample_env (Some sample_corpus) (Http_ok [1, 0]) Request_exception) ''books.json'' =
     Inr (Some sample_corpus) \<and>
   embed (sample_env (Some sample_corpus) (Http_ok [1, 0]) Request_exception)
     ''cats'' ''retrieval.query'' = Http_ok [1, 0] \<and>
   fst (score_corpus [1, 0] sample_corpus) =
     Inr [sample_match ''Author A'' ''T1'' (3 / 5) None, sample_match ''Author B'' ''T2'' (4 / 5) None] \<and>
   rerank (sample_env (Some sample_corpus) (Http_ok [1, 0]) Request_exception)
     ''cats'' [''about T2'', ''about T1''] 1 = Request_exception \<and>
   (0::int) < 1 \<and> (0::int) < 10 \<and>
   scorable (''Author B'', sample_book ''T2'' (Some [4, 3])) \<and>
   (''Author B'', sample_book ''T2'' (Some [4, 3])) \<in> set (corpus_records sample_corpus) \<and>
   fst (search_embeddings (sample_env (Some sample_corpus) (Http_ok [1, 0]) Request_exception)
          ''cats'' ''books.json'' 1 10) =
     Inr [sample_match ''Author B'' ''T2'' (4 / 5) None]"
proof -
  let ?e = "sample_env (Some sample_corpus) (Http_ok [1, 0]) Request_exception"
  let ?ms = "[sample_match ''Author A'' ''T1'' (3 / 5) None, sample_match ''Author B'' ''T2'' (4 / 5) None]"
  let ?cands = "[sample_match ''Author B'' ''T2'' (4 / 5) None, sample_match ''Author A'' ''T1'' (3 / 5) None]"
  have loaded: "load_books ?e ''books.json'' = Inr (Some sample_corpus)"
    by (simp add: load_books_def sample_env_def console_print_def)
  have emb: "embed ?e ''cats'' ''retrieval.query'' = Http_ok [1, 0]"
    by (simp add: sample_env_def)
  have sc: "fst (score_corpus [1, 0] sample_corpus) = Inr ?ms"
    by (simp add: sample_defs)
  have cands: "?cands = py_slice_to 10 (sorted_reverse ?ms)"
    by (simp add: sample_defs)
  have failed: "rerank ?e ''cats'' (map description ?cands) 1 = Request_exception"
    by (simp add: sample_env_def)
  have failed': "rerank ?e ''cats'' [''about T2'', ''about T1''] 1 = Request_exception"
    by (simp add: sample_env_def)
  have sa: "scorable (''Author B'', sample_book ''T2'' (Some [4, 3]))"
    by (simp add: sample_defs)
  have mem: "(''Author B'', sample_book ''T2'' (Some [4, 3])) \<in> set (corpus_records sample_corpus)"
    by (simp add: sample_defs)
  have result: "fst (search_embeddings ?e ''cats'' ''books.json'' 1 10) =
                  Inr [sample_match ''Author B'' ''T2'' (4 / 5) None]"
    using rerank_failure_fallback [OF loaded emb sc cands failed]
    by (simp add: py_slice_to_def)
  show ?thesis
    by (intro conjI) (rule loaded emb sc failed' sa mem result | simp)+
qed

text \<open>
  Claim C2 as stated does not hold for every failure of the reranking call: an answer
  whose body lacks the expected keys is not caught, and \<^verbatim>\<open>KeyError\<close> is raised instead
  of the fallback, with the limits 5 and 10. Nor does it hold for every \<open>top_n\<close>: with
  \<open>top_n = 0\<close> the fallback slice is empty although the corpus has scorable records.
\<close>

theorem rerank_bad_body_raises:
  "load_books (sample_env (Some sample_corpus) (Http_ok [1, 0]) (Bad_body KeyError)) ''books.json'' =
     Inr (Some sample_corpus) \<and>
   fst (generate_embedding (sample_env (Some sample_corpus) (Http_ok [1, 0]) (Bad_body KeyError))
          ''cats'' ''retrieval.query'') = Inr (Some [1, 0]) \<and>
   rerank (sample_env (Some sample_corpus) (Http_ok [1, 0]) (Bad_body KeyError))
     ''cats'' [''about T2'', ''about T1''] 5 = Bad_body KeyError \<and>
   search_embeddings (sample_env (Some sample_corpus) (Http_ok [1, 0]) (Bad_body KeyError))
       ''cats'' ''books.json'' 5 10 =
     (Inl KeyError,
      [Embed_call ''cats'' ''retrieval.query'', Similarity_call [1, 0] [3, 4],
       Similarity_call [1, 0] [4, 3], Rerank_call ''cats'' [''about T2'', ''about T1''] 5]) \<and>
   scorable (''Author B'', sample_book ''T2'' (Some [4, 3])) \<and>
   (''Author B'', sample_book ''T2'' (Some [4, 3])) \<in> set (corpus_records sample_corpus) \<and>
   rerank (sample_env (Some sample_corpus) (Http_ok [1, 0]) Request_exception)
     ''cats'' [''about T2'', ''about T1''] 0 = Request_exception \<and>
   search_embeddings (sample_env (Some sample_corpus) (Http_ok [1, 0]) Request_exception)
       ''cats'' ''books.json'' 0 10 =
     (Inr [],
      [Embed_call ''cats'' ''retrieval.query'', Similarity_call [1, 0] [3, 4],
       Similarity_call [1, 0] [4, 3], Rerank_call ''cats'' [''about T2'', ''about T1''] 0])"
  by (simp add: sample_defs)

text \<open>
  Claim C3, as amended. When \<^verbatim>\<open>load_books\<close> has returned, the query-embedding request fails
  with a \<^verbatim>\<open>RequestException\<close> and the handler's message is printed,
  \<^verbatim>\<open>search_embeddings\<close> returns the empty list, whatever the corpus and the limits are.
  The only call it has made is the embedding request: it calls neither the similarity
  function nor the reranking provider.
\<close>

theorem embedding_failure_returns_empty:
  assumes loaded: "load_books e filename = Inr data"
    and failed: "embed e search_text ''retrieval.query'' = Request_exception"
    and printed: "console_print e
        (''Failed to generate embedding for text: '' @ take 30 search_text @ ''... - Error: '') =
          Inr ()"
  shows "search_embeddings e search_text filename top_n initial_matches =
           (Inr [], [Embed_call search_text ''retrieval.query''])"
  using assms
  by (simp add: search_embeddings_def generate_embedding_def)

theorem embedding_failure_returns_empty_witness:
  "load_books (sample_env (Some sample_corpus) Request_exception (Http_ok [])) ''books.json'' =
     Inr (Some sample_corpus) \<and>
   embed (sample_env (Some sample_corpus) Request_exception (Http_ok [])) ''cats'' ''retrieval.query'' =
     Request_exception \<and>
   console_print (sample_env (Some sample_corpus) Request_exception (Http_ok []))
     (''Failed to generate embedding for text: '' @ take 30 ''cats'' @ ''... - Error: '') = Inr () \<and>
   search_embeddings (sample_env (Some sample_corpus) Request_exception (Http_ok []))
     ''cats'' ''books.json'' 5 10 = (Inr [], [Embed_call ''cats'' ''retrieval.query''])"
proof -
  let ?e = "sample_env (Some sample_corpus) Request_exception (Http_ok [])"
  have loaded: "load_books ?e ''books.json'' = Inr (Some sample_corpus)"
    by (simp add: load_books_def sample_env_def console_print_def)
  have failed: "embed ?e ''cats'' ''retrieval.query'' = Request_exception"
    by (simp add: sample_env_def)
  have printed: "console_print ?e
      (''Failed to generate embedding for text: '' @ take 30 ''cats'' @ ''... - Error: '') = Inr ()"
    by (simp add: console_print_def)
  from embedding_failure_returns_empty [OF loaded failed printed, of 5 10]
  have result: "search_embeddings ?e ''cats'' ''books.json'' 5 10 =
                  (Inr [], [Embed_call ''cats'' ''retrieval.query''])" .
  show ?thesis
    by (intro conjI) (rule loaded failed printed result)+
qed

text \<open>
  Claim C3 as stated does not hold for every failure of the embedding call: a body whose
  \<^verbatim>\<open>data\<close> list is empty is not caught, and \<^verbatim>\<open>IndexError\<close> is raised instead of the
  empty list being returned. Nor is the empty list returned for the query \<^verbatim>\<open>[/b] cats\<close>, whose
  closing tag the console refuses when the handler prints the query.
\<close>

theorem embedding_bad_body_raises:
  "embed (sample_env (Some sample_corpus) (Bad_body IndexError) (Http_ok []))
     ''cats'' ''retrieval.query'' = Bad_body IndexError \<and>
   search_embeddings (sample_env (Some sample_corpus) (Bad_body IndexError) (Http_ok []))
       ''cats'' ''books.json'' 5 10 =
     (Inl IndexError, [Embed_call ''cats'' ''retrieval.query'']) \<and>
   embed (sample_env (Some sample_corpus) Request_exception (Http_ok []))
     ''[/b] cats'' ''retrieval.query'' = Request_exception \<and>
   search_embeddings (sample_env (Some sample_corpus) Request_exception (Http_ok []))
       ''[/b] cats'' ''books.json'' 5 10 =
     (Inl MarkupError, [Embed_call ''[/b] cats'' ''retrieval.query''])"
  by (simp add: sample_defs)

text \<open>
  Claim C4, as amended. On a corpus without scorable records, once the query embedding is
  obtained, \<^verbatim>\<open>search_embeddings\<close> makes no similarity call but still sends one
  reranking request, with an empty document list. It returns the empty list when that
  request fails with a \<^verbatim>\<open>RequestException\<close> or is answered with no results.
\<close>

theorem empty_corpus_still_reranks:
  assumes loaded: "load_books e filename = Inr (Some d)"
    and none: "\<forall>r \<in> set (corpus_records d). \<not> scorable r"
    and emb: "embed e search_text ''retrieval.query'' = Http_ok q"
  shows "snd (search_embeddings e search_text filename top_n initial_matches) =
           [Embed_call search_text ''retrieval.query'', Rerank_call search_text [] top_n] \<and>
         (rerank e search_text [] top_n = Request_exception \<or>
          rerank e search_text [] top_n = Http_ok [] \<longrightarrow>
            fst (search_embeddings e search_text filename top_n initial_matches) = Inr [])"
proof -
  have slice: "py_slice_to initial_matches (sorted_reverse []) = ([] :: match list)"
    by (simp add: py_slice_to_def sorted_reverse_def)
  have "fst (rerank_results e search_text [] top_n) = Inr []"
    if "rerank e search_text [] top_n = Request_exception \<or> rerank e search_text [] top_n = Http_ok []"
    using that by (auto simp: rerank_results_def py_slice_to_def)
  with search_embeddings_scored [OF loaded emb score_corpus_unscorable [OF none], of top_n initial_matches]
  show ?thesis by (simp add: slice)
qed

theorem empty_corpus_still_reranks_witness:
  "load_books (sample_env (Some [(''Author A'', [sample_book ''T0'' None])]) (Http_ok [1, 0]) (Http_ok []))
     ''books.json'' = Inr (Some [(''Author A'', [sample_book ''T0'' None])]) \<and>
   \<not> scorable (''Author A'', sample_book ''T0'' None) \<and>
   search_embeddings
     (sample_env (Some [(''Author A'', [sample_book ''T0'' None])]) (Http_ok [1, 0]) (Http_ok []))
     ''cats'' ''books.json'' 5 10 =
     (Inr [], [Embed_call ''cats'' ''retrieval.query'', Rerank_call ''cats'' [] 5])"
proof -
  let ?d = "[(''Author A'', [sample_book ''T0'' None])]"
  let ?e = "sample_env (Some ?d) (Http_ok [1, 0]) (Http_ok [])"
  have loaded: "load_books ?e ''books.json'' = Inr (Some ?d)"
    by (simp add: load_books_def sample_env_def console_print_def)
  have ns: "\<not> scorable (''Author A'', sample_book ''T0'' None)"
    by (simp add: sample_defs)
  then have none: "\<forall>r \<in> set (corpus_records ?d). \<not> scorable r"
    by (simp add: corpus_records_def)
  have emb: "embed ?e ''cats'' ''retrieval.query'' = Http_ok [1, 0]"
    by (simp add: sample_env_def)
  have ok: "rerank ?e ''cats'' [] 5 = Http_ok []"
    by (simp add: sample_env_def)
  have result: "search_embeddings ?e ''cats'' ''books.json'' 5 10 =
      (Inr [], [Embed_call ''cats'' ''retrieval.query'', Rerank_call ''cats'' [] 5])"
    using empty_corpus_still_reranks [OF loaded none emb, of 5 10] ok
    by (simp add: prod_eq_iff)
  show ?thesis
    by (intro conjI) (rule loaded ns result)+
qed

text \<open>
  Claim C4 as stated does not hold: on the empty corpus the reranking provider is
  contacted, with an empty document list.
\<close>

theorem empty_corpus_rerank_called:
  "load_books (sample_env (Some []) (Http_ok [1, 0]) Request_exception) ''books.json'' = Inr (Some []) \<and>
   search_embeddings (sample_env (Some []) (Http_ok [1, 0]) Request_exception)
       ''cats'' ''books.json'' 5 10 =
     (Inr [], [Embed_call ''cats'' ''retrieval.query'', Rerank_call ''cats'' [] 5])"
  by (simp add: sample_defs)

text \<open>
  Claim C5. Whenever \<^verbatim>\<open>search_embeddings\<close> returns a list, on the reranking-success path
  as on the fallback path, every entry is built from a record of the corpus whose
  embedding is not null: it has that record's author and its four text fields. The
  records with a null embedding have no effect at all: on the corpus without them, the
  outcome and the calls made are the same.
\<close>

theorem null_embedding_never_returned:
  assumes loaded: "load_books e filename = Inr (Some d)"
    and run: "fst (search_embeddings e search_text filename top_n initial_matches) = Inr rs"
  shows "(\<forall>r \<in> set rs. \<exists>rec \<in> set (corpus_records d).
            embedding (snd rec) \<noteq> None \<and>
            author r = fst rec \<and>
            title r = get_or (book_title (snd rec)) ''N/A'' \<and>
            description r = get_or (book_description (snd rec)) ''N/A'' \<and>
            publication_date r = get_or (book_publication_date (snd rec)) ''N/A'' \<and>
            thumbnail_url r = get_or (book_thumbnail_url (snd rec)) ''N/A'') \<and>
         search_embeddings (e\<lparr>files := (files e)(filename \<mapsto> drop_null d)\<rparr>)
             search_text filename top_n initial_matches =
           search_embeddings e search_text filename top_n initial_matches"
proof
  show "\<forall>r \<in> set rs. \<exists>rec \<in> set (corpus_records d).
            embedding (snd rec) \<noteq> None \<and>
            author r = fst rec \<and>
            title r = get_or (book_title (snd rec)) ''N/A'' \<and>
            description r = get_or (book_description (snd rec)) ''N/A'' \<and>
            publication_date r = get_or (book_publication_date (snd rec)) ''N/A'' \<and>
            thumbnail_url r = get_or (book_thumbnail_url (snd rec)) ''N/A''"
  proof (cases "embed e search_text ''retrieval.query''")
    case (Http_ok q)
    from run loaded Http_ok obtain ms tr where sc: "score_corpus q d = (Inr ms, tr)"
      by (cases "score_corpus q d"; cases "fst (score_corpus q d)")
        (auto simp: search_embeddings_def generate_embedding_def)
    let ?cands = "py_slice_to initial_matches (sorted_reverse ms)"
    from search_embeddings_scored [OF loaded Http_ok sc, of top_n initial_matches] run
    obtain tr' where rr: "rerank_results e search_text ?cands top_n = (Inr rs, tr')"
      by (cases "rerank_results e search_text ?cands top_n") simp
    show ?thesis
    proof
      fix r assume "r \<in> set rs"
      with rerank_results_elements [OF rr] obtain m where
        m: "m \<in> set ?cands" and eq: "r\<lparr>relevance_score := None\<rparr> = m\<lparr>relevance_score := None\<rparr>"
        by blast
      from m set_py_slice_to [of initial_matches "sorted_reverse ms"] have "m \<in> set ms" by auto
      with score_corpus_result [OF sc] obtain rec where
        rec: "rec \<in> set (corpus_records d)" "scorable rec" and mrec: "m = scored q rec"
        by auto
      from eq have
        "author r = author m" "title r = title m" "description r = description m"
        "publication_date r = publication_date m" "thumbnail_url r = thumbnail_url m"
        by (cases r; cases m; simp)+
      with rec mrec scorable_not_null [OF rec(2)]
      show "\<exists>rec \<in> set (corpus_records d).
            embedding (snd rec) \<noteq> None \<and>
            author r = fst rec \<and>
            title r = get_or (book_title (snd rec)) ''N/A'' \<and>
            description r = get_or (book_description (snd rec)) ''N/A'' \<and>
            publication_date r = get_or (book_publication_date (snd rec)) ''N/A'' \<and>
            thumbnail_url r = get_or (book_thumbnail_url (snd rec)) ''N/A''"
        by (auto simp: scored_fields)
    qed
  next
    case Request_exception
    with run loaded have "rs = []"
      by (auto simp: search_embeddings_def generate_embedding_def split: sum.splits)
    then show ?thesis by simp
  next
    case (Bad_body err)
    with run loaded show ?thesis
      by (simp add: search_embeddings_def generate_embedding_def)
  qed
next
  show "search_embeddings (e\<lparr>files := (files e)(filename \<mapsto> drop_null d)\<rparr>)
             search_text filename top_n initial_matches =
           search_embeddings e search_text filename top_n initial_matches"
  proof -
    from loaded have "load_books (e\<lparr>files := (files e)(filename \<mapsto> drop_null d)\<rparr>) filename =
                        Inr (Some (drop_null d))"
      by (simp add: load_books_Some_iff)
    with loaded show ?thesis
      by (simp add: search_embeddings_def score_corpus_drop_null
          split: prod.splits sum.splits option.splits)
  qed
qed

theorem null_embedding_never_returned_witness:
  "load_books (sample_env (Some sample_corpus) (Http_ok [1, 0]) Request_exception) ''books.json'' =
     Inr (Some sample_corpus) \<and>
   (''Author A'', sample_book ''T0'' None) \<in> set (corpus_records sample_corpus) \<and>
   fst (search_embeddings (sample_env (Some sample_corpus) (Http_ok [1, 0]) Request_exception)
          ''cats'' ''books.json'' 5 10) =
     Inr [sample_match ''Author B'' ''T2'' (4 / 5) None, sample_match ''Author A'' ''T1'' (3 / 5) None] \<and>
   search_embeddings
       ((sample_env (Some sample_corpus) (Http_ok [1, 0]) Request_exception)
          \<lparr>files := (files (sample_env (Some sample_corpus) (Http_ok [1, 0]) Request_exception))
             (''books.json'' \<mapsto> drop_null sample_corpus)\<rparr>)
       ''cats'' ''books.json'' 5 10 =
     search_embeddings (sample_env (Some sample_corpus) (Http_ok [1, 0]) Request_exception)
       ''cats'' ''books.json'' 5 10"
proof -
  let ?e = "sample_env (Some sample_corpus) (Http_ok [1, 0]) Request_exception"
  let ?rs = "[sample_match ''Author B'' ''T2'' (4 / 5) None, sample_match ''Author A'' ''T1'' (3 / 5) None]"
  have loaded: "load_books ?e ''books.json'' = Inr (Some sample_corpus)"
    by (simp add: load_books_def sample_env_def console_print_def)
  have mem: "(''Author A'', sample_book ''T0'' None) \<in> set (corpus_records sample_corpus)"
    by (simp add: sample_defs)
  have run: "fst (search_embeddings ?e ''cats'' ''books.json'' 5 10) = Inr ?rs"
    by (simp add: sample_defs)
  from null_embedding_never_returned [OF loaded run] loaded mem run show ?thesis
    by blast
qed

text \<open>
  Claim C6. Once the query embedding is obtained, and every stored vector has the
  dimension of the query vector, scoring raises no exception and the scored set holds one
  match for every scorable record, in iteration order; the sort puts it in descending
  order of similarity, keeps every match, and keeps matches of equal similarity in their
  original order; and for a non-negative \<open>initial_matches\<close> the list handed to
  \<^verbatim>\<open>rerank_results\<close>, whose descriptions are the documents of the reranking request, is
  the first \<open>initial_matches\<close> entries of the sorted list.
\<close>

theorem similarity_engine_ranking:
  assumes loaded: "load_books e filename = Inr (Some d)"
    and emb: "embed e search_text ''retrieval.query'' = Http_ok q"
    and dims: "\<forall>r \<in> set (corpus_records d).
                 scorable r \<longrightarrow> length (the (embedding (snd r))) = length q"
    and init: "0 \<le> initial_matches"
  shows "\<exists>ms tr.
           score_corpus q d = (Inr ms, tr) \<and>
           ms = map (scored q) (filter scorable (corpus_records d)) \<and>
           sorted_wrt (\<lambda>a b. similarity b \<le> similarity a) (sorted_reverse ms) \<and>
           mset (sorted_reverse ms) = mset ms \<and>
           (\<forall>k. filter (\<lambda>m. similarity m = k) (sorted_reverse ms) =
                 filter (\<lambda>m. similarity m = k) ms) \<and>
           search_embeddings e search_text filename top_n initial_matches =
             (fst (rerank_results e search_text
                     (take (nat initial_matches) (sorted_reverse ms)) top_n),
              Embed_call search_text ''retrieval.query'' # tr @
                [Rerank_call search_text
                   (map description (take (nat initial_matches) (sorted_reverse ms))) top_n])"
proof -
  from score_corpus_ok [OF dims] obtain ms tr where sc: "score_corpus q d = (Inr ms, tr)"
    by blast
  from init have "py_slice_to initial_matches (sorted_reverse ms) =
                    take (nat initial_matches) (sorted_reverse ms)"
    by (simp add: py_slice_to_def)
  with search_embeddings_scored [OF loaded emb sc, of top_n initial_matches]
    score_corpus_result [OF sc] sorted_reverse_desc [of ms] sorted_reverse_mset [of ms]
    sorted_reverse_stable [of _ ms] sc
  show ?thesis by simp
qed

theorem similarity_engine_ranking_witness:
  "load_books (sample_env (Some tie_corpus) (Http_ok [1, 0]) Request_exception) ''books.json'' =
     Inr (Some tie_corpus) \<and>
   embed (sample_env (Some tie_corpus) (Http_ok [1, 0]) Request_exception) ''cats'' ''retrieval.query'' =
     Http_ok [1, 0] \<and>
   corpus_records tie_corpus =
     [(''Author A'', sample_book ''T1'' (Some [3, 4])),
      (''Author B'', sample_book ''T2'' (Some [4, 3])),
      (''Author B'', sample_book ''T3'' (Some [3, 4]))] \<and>
   (0::int) \<le> 2 \<and>
   score_corpus [1, 0] tie_corpus =
     (Inr [sample_match ''Author A'' ''T1'' (3 / 5) None,
           sample_match ''Author B'' ''T2'' (4 / 5) None,
           sample_match ''Author B'' ''T3'' (3 / 5) None],
      [Similarity_call [1, 0] [3, 4], Similarity_call [1, 0] [4, 3], Similarity_call [1, 0] [3, 4]]) \<and>
   sorted_reverse [sample_match ''Author A'' ''T1'' (3 / 5) None,
                   sample_match ''Author B'' ''T2'' (4 / 5) None,
                   sample_match ''Author B'' ''T3'' (3 / 5) None] =
     [sample_match ''Author B'' ''T2'' (4 / 5) None,
      sample_match ''Author A'' ''T1'' (3 / 5) None,
      sample_match ''Author B'' ''T3'' (3 / 5) None] \<and>
   search_embeddings (sample_env (Some tie_corpus) (Http_ok [1, 0]) Request_exception)
       ''cats'' ''books.json'' 5 2 =
     (Inr [sample_match ''Author B'' ''T2'' (4 / 5) None, sample_match ''Author A'' ''T1'' (3 / 5) None],
      [Embed_call ''cats'' ''retrieval.query'', Similarity_call [1, 0] [3, 4],
       Similarity_call [1, 0] [4, 3], Similarity_call [1, 0] [3, 4],
       Rerank_call ''cats'' [''about T2'', ''about T1''] 5])"
proof -
  let ?e = "sample_env (Some tie_corpus) (Http_ok [1, 0]) Request_exception"
  let ?ms = "[sample_match ''Author A'' ''T1'' (3 / 5) None,
              sample_match ''Author B'' ''T2'' (4 / 5) None,
              sample_match ''Author B'' ''T3'' (3 / 5) None]"
  let ?tr = "[Similarity_call [1, 0] [3, 4], Similarity_call [1, 0] [4, 3],
              Similarity_call [1, 0] [3, 4]]"
  have loaded: "load_books ?e ''books.json'' = Inr (Some tie_corpus)"
    by (simp add: load_books_def sample_env_def console_print_def)
  have emb: "embed ?e ''cats'' ''retrieval.query'' = Http_ok [1, 0]"
    by (simp add: sample_env_def)
  have recs: "corpus_records tie_corpus =
     [(''Author A'', sample_book ''T1'' (Some [3, 4])),
      (''Author B'', sample_book ''T2'' (Some [4, 3])),
      (''Author B'', sample_book ''T3'' (Some [3, 4]))]"
    by (simp add: tie_corpus_def)
  have dims: "\<forall>r \<in> set (corpus_records tie_corpus).
                scorable r \<longrightarrow> length (the (embedding (snd r))) = length [1, 0 :: real]"
    by (simp add: recs sample_book_def)
  have init: "(0::int) \<le> 2"
    by simp
  have sc: "score_corpus [1, 0] tie_corpus = (Inr ?ms, ?tr)"
    by (simp add: sample_defs)
  have srt: "sorted_reverse ?ms =
     [sample_match ''Author B'' ''T2'' (4 / 5) None,
      sample_match ''Author A'' ''T1'' (3 / 5) None,
      sample_match ''Author B'' ''T3'' (3 / 5) None]"
    by (simp add: sorted_reverse_def sample_match_def)
  from similarity_engine_ranking [OF loaded emb dims init, of 5] sc
  have "search_embeddings ?e ''cats'' ''books.json'' 5 2 =
          (fst (rerank_results ?e ''cats'' (take (nat 2) (sorted_reverse ?ms)) 5),
           Embed_call ''cats'' ''retrieval.query'' # ?tr @
             [Rerank_call ''cats'' (map description (take (nat 2) (sorted_reverse ?ms))) 5])"
    by auto
  then have result: "search_embeddings ?e ''cats'' ''books.json'' 5 2 =
     (Inr [sample_match ''Author B'' ''T2'' (4 / 5) None, sample_match ''Author A'' ''T1'' (3 / 5) None],
      [Embed_call ''cats'' ''retrieval.query'', Similarity_call [1, 0] [3, 4],
       Similarity_call [1, 0] [4, 3], Similarity_call [1, 0] [3, 4],
       Rerank_call ''cats'' [''about T2'', ''about T1''] 5])"
    by (simp add: srt) (simp add: sample_match_def sample_env_def rerank_results_def py_slice_to_def)
  show ?thesis
    by (intro conjI) (rule loaded emb recs init sc srt result)+
qed

text \<open>
  Claim C7, as amended. With \<open>top_n = 5\<close>, take a run of \<^verbatim>\<open>search_embeddings\<close> that
  returns a list. The reranking request it has sent holds at most as many documents as
  the corpus has book records. If the request failed with a \<^verbatim>\<open>RequestException\<close>, the
  list has at most 5 entries and at most as many as the request had documents. If the
  request was answered, the list has exactly as many entries as the answer has items. If
  no request was sent, the list is empty.
\<close>

theorem result_length_bound:
  assumes loaded: "load_books e filename = Inr (Some d)"
    and run: "search_embeddings e search_text filename 5 initial_matches = (Inr rs, tr)"
  shows "(\<forall>docs. Rerank_call search_text docs 5 \<in> set tr \<longrightarrow>
            length docs \<le> length (corpus_records d) \<and>
            (case rerank e search_text docs 5 of
               Http_ok ranked \<Rightarrow> length rs = length ranked
             | Request_exception \<Rightarrow> length rs \<le> 5 \<and> length rs \<le> length docs
             | Bad_body err \<Rightarrow> False)) \<and>
         ((\<forall>docs. Rerank_call search_text docs 5 \<notin> set tr) \<longrightarrow> rs = [])"
proof (cases "embed e search_text ''retrieval.query''")
  case (Http_ok q)
  from run loaded Http_ok obtain ms tr1 where sc: "score_corpus q d = (Inr ms, tr1)"
    by (cases "score_corpus q d"; cases "fst (score_corpus q d)")
      (auto simp: search_embeddings_def generate_embedding_def)
  let ?cands = "py_slice_to initial_matches (sorted_reverse ms)"
  from search_embeddings_scored [OF loaded Http_ok sc, of 5 initial_matches] run
  have tr: "tr = Embed_call search_text ''retrieval.query'' # tr1 @
                   [Rerank_call search_text (map description ?cands) 5]"
    and "fst (rerank_results e search_text ?cands 5) = Inr rs"
    by simp_all
  then obtain tr2 where rr: "rerank_results e search_text ?cands 5 = (Inr rs, tr2)"
    by (cases "rerank_results e search_text ?cands 5") simp
  from score_corpus_result [OF sc] have tr1: "tr1 = map (similarity_call q) (filter scorable (corpus_records d))"
    and "length ms \<le> length (corpus_records d)"
    by simp_all
  with length_py_slice_to [of initial_matches "sorted_reverse ms"]
  have cands_le: "length ?cands \<le> length (corpus_records d)"
    by simp
  have answer: "case rerank e search_text (map description ?cands) 5 of
               Http_ok ranked \<Rightarrow> length rs = length ranked
             | Request_exception \<Rightarrow> length rs \<le> 5 \<and> length rs \<le> length (map description ?cands)
             | Bad_body err \<Rightarrow> False"
  proof (cases "rerank e search_text (map description ?cands) 5")
    case (Http_ok ranked)
    with rerank_results_length [OF rr] show ?thesis by simp
  next
    case Request_exception
    with rerank_results_length [OF rr] have "rs = py_slice_to 5 ?cands" by simp
    with Request_exception show ?thesis by (simp add: py_slice_to_def)
  next
    case (Bad_body err)
    with rr show ?thesis by (simp add: rerank_results_def)
  qed
  have only: "docs = map description ?cands" if "Rerank_call search_text docs 5 \<in> set tr" for docs
  proof -
    have "Rerank_call search_text docs 5 \<notin> set tr1"
      unfolding tr1 by (auto simp: similarity_call_def)
    with that tr show ?thesis by simp
  qed
  show ?thesis
  proof (intro conjI allI impI)
    fix docs assume "Rerank_call search_text docs 5 \<in> set tr"
    then have docs: "docs = map description ?cands" by (rule only)
    from cands_le show "length docs \<le> length (corpus_records d)"
      unfolding docs by simp
    from answer show "case rerank e search_text docs 5 of
               Http_ok ranked \<Rightarrow> length rs = length ranked
             | Request_exception \<Rightarrow> length rs \<le> 5 \<and> length rs \<le> length docs
             | Bad_body err \<Rightarrow> False"
      unfolding docs .
  next
    assume "\<forall>docs. Rerank_call search_text docs 5 \<notin> set tr"
    moreover from tr have "Rerank_call search_text (map description ?cands) 5 \<in> set tr"
      by simp
    ultimately show "rs = []" by blast
  qed
next
  case Request_exception
  with run loaded have "rs = []"
    by (auto simp: search_embeddings_def generate_embedding_def split: sum.splits)
  moreover from Request_exception run loaded have "tr = [Embed_call search_text ''retrieval.query'']"
    by (auto simp: search_embeddings_def generate_embedding_def split: sum.splits)
  ultimately show ?thesis by simp
next
  case (Bad_body err)
  with run loaded show ?thesis
    by (simp add: search_embeddings_def generate_embedding_def)
qed

theorem result_length_bound_witness:
  "load_books (sample_env (Some sample_corpus) (Http_ok [1, 0]) (Http_ok [(1, 99 / 100), (0, 1 / 2)]))
     ''books.json'' = Inr (Some sample_corpus) \<and>
   search_embeddings
       (sample_env (Some sample_corpus) (Http_ok [1, 0]) (Http_ok [(1, 99 / 100), (0, 1 / 2)]))
       ''cats'' ''books.json'' 5 10 =
     (Inr [sample_match ''Author A'' ''T1'' (3 / 5) (Some (99 / 100)),
           sample_match ''Author B'' ''T2'' (4 / 5) (Some (1 / 2))],
      [Embed_call ''cats'' ''retrieval.query'', Similarity_call [1, 0] [3, 4],
       Similarity_call [1, 0] [4, 3], Rerank_call ''cats'' [''about T2'', ''about T1''] 5]) \<and>
   length [''about T2'', ''about T1''] \<le> length (corpus_records sample_corpus) \<and>
   length [sample_match ''Author A'' ''T1'' (3 / 5) (Some (99 / 100)),
           sample_match ''Author B'' ''T2'' (4 / 5) (Some (1 / 2))] =
     length [(1 :: int, 99 / 100 :: real), (0, 1 / 2)] \<and>
   load_books (sample_env (Some sample_corpus) Request_exception (Http_ok [])) ''books.json'' =
     Inr (Some sample_corpus) \<and>
   search_embeddings (sample_env (Some sample_corpus) Request_exception (Http_ok []))
       ''cats'' ''books.json'' 5 10 =
     (Inr [], [Embed_call ''cats'' ''retrieval.query''])"
proof -
  let ?e = "sample_env (Some sample_corpus) (Http_ok [1, 0]) (Http_ok [(1, 99 / 100), (0, 1 / 2)])"
  let ?rs = "[sample_match ''Author A'' ''T1'' (3 / 5) (Some (99 / 100)),
              sample_match ''Author B'' ''T2'' (4 / 5) (Some (1 / 2))]"
  let ?tr = "[Embed_call ''cats'' ''retrieval.query'', Similarity_call [1, 0] [3, 4],
              Similarity_call [1, 0] [4, 3], Rerank_call ''cats'' [''about T2'', ''about T1''] 5]"
  let ?f = "sample_env (Some sample_corpus) Request_exception (Http_ok [])"
  have loaded: "load_books ?e ''books.json'' = Inr (Some sample_corpus)"
    by (simp add: load_books_def sample_env_def console_print_def)
  have run: "search_embeddings ?e ''cats'' ''books.json'' 5 10 = (Inr ?rs, ?tr)"
    by (simp add: sample_defs)
  have call: "Rerank_call ''cats'' [''about T2'', ''about T1''] 5 \<in> set ?tr"
    by simp
  have answer: "rerank ?e ''cats'' [''about T2'', ''about T1''] 5 = Http_ok [(1, 99 / 100), (0, 1 / 2)]"
    by (simp add: sample_env_def)
  from result_length_bound [OF loaded run, THEN conjunct1, rule_format, OF call] answer
  have docs: "length [''about T2'', ''about T1''] \<le> length (corpus_records sample_corpus)"
    and len: "length ?rs = length [(1 :: int, 99 / 100 :: real), (0, 1 / 2)]"
    by simp_all
  have loaded': "load_books ?f ''books.json'' = Inr (Some sample_corpus)"
    by (simp add: load_books_def sample_env_def console_print_def)
  have run': "search_embeddings ?f ''cats'' ''books.json'' 5 10 =
                (Inr [], [Embed_call ''cats'' ''retrieval.query''])"
    by (simp add: sample_defs)
  show ?thesis
    by (intro conjI) (rule loaded run docs len loaded' run')+
qed

text \<open>
  Claim C7 as stated does not hold on the success path: an answer of six items to a
  request for five gives six entries, on a corpus of three book records.
\<close>

theorem rerank_answer_exceeds_top_n:
  "rerank (sample_env (Some sample_corpus) (Http_ok [1, 0])
             (Http_ok [(0, 9 / 10), (1, 4 / 5), (0, 7 / 10), (1, 3 / 5), (0, 1 / 2), (1, 2 / 5)]))
     ''cats'' [''about T2'', ''about T1''] 5 =
     Http_ok [(0, 9 / 10), (1, 4 / 5), (0, 7 / 10), (1, 3 / 5), (0, 1 / 2), (1, 2 / 5)] \<and>
   search_embeddings
       (sample_env (Some sample_corpus) (Http_ok [1, 0])
          (Http_ok [(0, 9 / 10), (1, 4 / 5), (0, 7 / 10), (1, 3 / 5), (0, 1 / 2), (1, 2 / 5)]))
       ''cats'' ''books.json'' 5 10 =
     (Inr [sample_match ''Author B'' ''T2'' (4 / 5) (Some (1 / 2)),
           sample_match ''Author A'' ''T1'' (3 / 5) (Some (2 / 5)),
           sample_match ''Author B'' ''T2'' (4 / 5) (Some (1 / 2)),
           sample_match ''Author A'' ''T1'' (3 / 5) (Some (2 / 5)),
           sample_match ''Author B'' ''T2'' (4 / 5) (Some (1 / 2)),
           sample_match ''Author A'' ''T1'' (3 / 5) (Some (2 / 5))],
      [Embed_call ''cats'' ''retrieval.query'', Similarity_call [1, 0] [3, 4],
       Similarity_call [1, 0] [4, 3], Rerank_call ''cats'' [''about T2'', ''about T1''] 5]) \<and>
   length (corpus_records sample_corpus) = 3"
  by (simp add: sample_defs)




text \<open>
  Claim C9. On unit vectors of equal dimension the similarity function is symmetric, and
  the similarity of a unit vector with itself is 1.
\<close>

theorem cosine_similarity_symmetric:
  assumes "length q = length p" and "row_norm q = 1" and "row_norm p = 1"
  shows "cosine_similarity q p = cosine_similarity p q \<and> cosine_similarity q q = Inr 1"
proof -
  from assms have "q \<noteq> []" "p \<noteq> []"
    by (auto simp: row_norm_def)
  with assms show ?thesis
    by (simp add: cosine_similarity_def dot_commute [of "normalize_row q"] dot_normalize_self)
qed

theorem cosine_similarity_symmetric_witness:
  "length [3 / 5, 4 / 5 :: real] = length [0, 1 :: real] \<and>
   row_norm [3 / 5, 4 / 5] = 1 \<and> row_norm [0, 1] = 1 \<and>
   cosine_similarity [3 / 5, 4 / 5] [0, 1] = Inr (4 / 5) \<and>
   cosine_similarity [0, 1] [3 / 5, 4 / 5] = Inr (4 / 5) \<and>
   cosine_similarity [3 / 5, 4 / 5] [3 / 5, 4 / 5] = Inr 1"
proof -
  have len: "length [3 / 5, 4 / 5 :: real] = length [0, 1 :: real]"
    by simp
  have nq: "row_norm [3 / 5, 4 / 5] = 1"
    by (simp add: row_norm_def)
  have np: "row_norm [0, 1] = 1"
    by (simp add: row_norm_def)
  have sim: "cosine_similarity [3 / 5, 4 / 5] [0, 1] = Inr (4 / 5)"
    by (simp add: cosine_similarity_def normalize_row_def handle_zeros_def nq np)
  from cosine_similarity_symmetric [OF len nq np] len nq np sim show ?thesis
    by simp
qed

text \<open>
  Claim C10, as amended. When the corpus file does not exist and \<^verbatim>\<open>load_books\<close> has
  returned, the outcome depends on the query-embedding call, which is made first. If it
  succeeds, iterating the missing corpus raises \<^verbatim>\<open>AttributeError\<close>. If it fails with a
  \<^verbatim>\<open>RequestException\<close> and the handler's message is printed, the empty list is
  returned. In both cases the embedding request is the only call made.
\<close>

theorem missing_corpus_file:
  assumes "load_books e filename = Inr None"
  shows "(embed e search_text ''retrieval.query'' = Http_ok q \<longrightarrow>
            search_embeddings e search_text filename top_n initial_matches =
              (Inl AttributeError, [Embed_call search_text ''retrieval.query''])) \<and>
         (embed e search_text ''retrieval.query'' = Request_exception \<and>
          console_print e
            (''Failed to generate embedding for text: '' @ take 30 search_text @ ''... - Error: '') =
              Inr () \<longrightarrow>
            search_embeddings e search_text filename top_n initial_matches =
              (Inr [], [Embed_call search_text ''retrieval.query'']))"
  using assms
  by (simp add: search_embeddings_def generate_embedding_def)

theorem missing_corpus_file_witness:
  "load_books (sample_env None (Http_ok [1, 0]) Request_exception) ''books.json'' = Inr None \<and>
   embed (sample_env None (Http_ok [1, 0]) Request_exception) ''cats'' ''retrieval.query'' =
     Http_ok [1, 0] \<and>
   search_embeddings (sample_env None (Http_ok [1, 0]) Request_exception) ''cats'' ''books.json'' 5 10 =
     (Inl AttributeError, [Embed_call ''cats'' ''retrieval.query'']) \<and>
   load_books (sample_env None Request_exception Request_exception) ''books.json'' = Inr None \<and>
   embed (sample_env None Request_exception Request_exception) ''dogs'' ''retrieval.query'' =
     Request_exception \<and>
   console_print (sample_env None Request_exception Request_exception)
     (''Failed to generate embedding for text: '' @ take 30 ''dogs'' @ ''... - Error: '') = Inr () \<and>
   search_embeddings (sample_env None Request_exception Request_exception) ''dogs'' ''books.json'' 5 10 =
     (Inr [], [Embed_call ''dogs'' ''retrieval.query''])"
proof -
  let ?e = "sample_env None (Http_ok [1, 0]) Request_exception"
  let ?f = "sample_env None Request_exception Request_exception"
  have missing: "load_books ?e ''books.json'' = Inr None"
    by (simp add: load_books_def sample_env_def console_print_def)
  have emb: "embed ?e ''cats'' ''retrieval.query'' = Http_ok [1, 0]"
    by (simp add: sample_env_def)
  from missing_corpus_file [OF missing, of "''cats''" "[1, 0]" 5 10] emb
  have raised: "search_embeddings ?e ''cats'' ''books.json'' 5 10 =
                  (Inl AttributeError, [Embed_call ''cats'' ''retrieval.query''])"
    by blast
  have missing': "load_books ?f ''books.json'' = Inr None"
    by (simp add: load_books_def sample_env_def console_print_def)
  have failed: "embed ?f ''dogs'' ''retrieval.query'' = Request_exception"
    by (simp add: sample_env_def)
  have printed: "console_print ?f
      (''Failed to generate embedding for text: '' @ take 30 ''dogs'' @ ''... - Error: '') = Inr ()"
    by (simp add: console_print_def)
  from missing_corpus_file [OF missing', of "''dogs''" "[]" 5 10] failed printed
  have empty: "search_embeddings ?f ''dogs'' ''books.json'' 5 10 =
                 (Inr [], [Embed_call ''dogs'' ''retrieval.query''])"
    by blast
  show ?thesis
    by (intro conjI) (rule missing emb raised missing' failed printed empty)+
qed

text \<open>
  Claim C10 as stated does not hold for every run: when the corpus file is missing and the
  query-embedding call fails, \<^verbatim>\<open>search_embeddings\<close> returns the empty list.
\<close>

theorem missing_file_embedding_failure_returns_empty:
  "load_books (sample_env None Request_exception Request_exception) ''books.json'' = Inr None \<and>
   search_embeddings (sample_env None Request_exception Request_exception)
       ''cats'' ''books.json'' 5 10 =
     (Inr [], [Embed_call ''cats'' ''retrieval.query''])"
  by (simp add: sample_defs)

end
